theory Spec2Isabelle
  imports Complex_Main
begin

section \<open>Floating-point values of the notebook\<close>

text \<open>
  The calibration notebook computes with NumPy doubles. A double is a finite number, one
  of the two infinities, or not-a-number. Finite doubles are modelled by the reals they
  denote, so rounding, overflow of a finite result to an infinity, and the sign of zero
  are outside the model; a zero divisor is taken as the positive zero, which is what the
  product \<open>cal_sigma*cal_sigma\<close> yields. The special values follow IEEE 754 as NumPy
  applies it to \<open>float64\<close> operands: no arithmetic operation raises.
\<close>

datatype pyfloat = Fin real | PInf | NInf | NaN

fun isfinite :: "pyfloat \<Rightarrow> bool" where
  "isfinite (Fin x) = True"
| "isfinite _ = False"

fun pf_neg :: "pyfloat \<Rightarrow> pyfloat" where
  "pf_neg (Fin x) = Fin (- x)"
| "pf_neg PInf = NInf"
| "pf_neg NInf = PInf"
| "pf_neg NaN = NaN"

fun pf_add :: "pyfloat \<Rightarrow> pyfloat \<Rightarrow> pyfloat" where
  "pf_add NaN b = NaN"
| "pf_add a NaN = NaN"
| "pf_add (Fin x) (Fin y) = Fin (x + y)"
| "pf_add PInf NInf = NaN"
| "pf_add NInf PInf = NaN"
| "pf_add PInf b = PInf"
| "pf_add NInf b = NInf"
| "pf_add (Fin x) b = b"

definition pf_sub :: "pyfloat \<Rightarrow> pyfloat \<Rightarrow> pyfloat" where
  "pf_sub a b = pf_add a (pf_neg b)"

text \<open>The infinity with the sign of a non-zero real.\<close>

definition inf_of_sign :: "real \<Rightarrow> pyfloat" where
  "inf_of_sign x = (if 0 < x then PInf else NInf)"

fun pf_mul :: "pyfloat \<Rightarrow> pyfloat \<Rightarrow> pyfloat" where
  "pf_mul NaN b = NaN"
| "pf_mul a NaN = NaN"
| "pf_mul (Fin x) (Fin y) = Fin (x * y)"
| "pf_mul (Fin x) PInf = (if x = 0 then NaN else inf_of_sign x)"
| "pf_mul (Fin x) NInf = (if x = 0 then NaN else inf_of_sign (- x))"
| "pf_mul PInf (Fin y) = (if y = 0 then NaN else inf_of_sign y)"
| "pf_mul NInf (Fin y) = (if y = 0 then NaN else inf_of_sign (- y))"
| "pf_mul PInf PInf = PInf"
| "pf_mul NInf NInf = PInf"
| "pf_mul PInf NInf = NInf"
| "pf_mul NInf PInf = NInf"

fun pf_div :: "pyfloat \<Rightarrow> pyfloat \<Rightarrow> pyfloat" where
  "pf_div NaN b = NaN"
| "pf_div a NaN = NaN"
| "pf_div (Fin x) (Fin y) =
     (if y = 0 then (if x = 0 then NaN else inf_of_sign x) else Fin (x / y))"
| "pf_div (Fin x) b = Fin 0"
| "pf_div PInf (Fin y) = (if 0 \<le> y then PInf else NInf)"
| "pf_div NInf (Fin y) = (if 0 \<le> y then NInf else PInf)"
| "pf_div a b = NaN"

text \<open>\<open>x ** 2\<close> on a NumPy array squares each entry.\<close>

definition pf_square :: "pyfloat \<Rightarrow> pyfloat" where
  "pf_square a = pf_mul a a"

text \<open>\<open>np.log\<close>: minus infinity at zero, not-a-number below zero, no exception.\<close>

fun np_log :: "pyfloat \<Rightarrow> pyfloat" where
  "np_log (Fin x) = (if 0 < x then Fin (ln x) else if x = 0 then NInf else NaN)"
| "np_log PInf = PInf"
| "np_log NInf = NaN"
| "np_log NaN = NaN"

text \<open>Comparison: every comparison with not-a-number is false.\<close>

fun pf_lt :: "pyfloat \<Rightarrow> pyfloat \<Rightarrow> bool" where
  "pf_lt NaN b = False"
| "pf_lt a NaN = False"
| "pf_lt (Fin x) (Fin y) = (x < y)"
| "pf_lt a PInf = (a \<noteq> PInf)"
| "pf_lt NInf b = (b \<noteq> NInf)"
| "pf_lt a b = False"

text \<open>\<open>np.sum\<close> of a one-column array, starting from \<open>0.0\<close>.\<close>

definition np_sum :: "pyfloat list \<Rightarrow> pyfloat" where
  "np_sum xs = foldl pf_add (Fin 0) xs"

section \<open>Errors, indexing and array arithmetic\<close>

text \<open>
  Exceptions are values. \<open>ValueError\<close> is what unpacking a sequence of the wrong length
  and combining arrays of incompatible shapes raise, \<open>IndexError\<close> is what indexing past
  the end raises, and \<open>OdeintError\<close> stands for whatever the integrator may raise.
\<close>

datatype error = ValueError | IndexError | OdeintError

definition getitem :: "'a list \<Rightarrow> nat \<Rightarrow> error + 'a" where
  "getitem xs i = (if i < length xs then Inr (xs ! i) else Inl IndexError)"

definition ebind :: "error + 'a \<Rightarrow> ('a \<Rightarrow> error + 'b) \<Rightarrow> error + 'b" where
  "ebind m f = (case m of Inl e \<Rightarrow> Inl e | Inr v \<Rightarrow> f v)"

text \<open>
  The observations and the integrated trajectory of the one-compartment model are arrays
  of shape \<open>(Nt, 1)\<close>, modelled as the list of their entries. \<open>y - model\<close> broadcasts: the
  two columns have the same number of rows, or one of them has a single row which is
  repeated; otherwise NumPy raises.
\<close>

definition arr_sub :: "pyfloat list \<Rightarrow> pyfloat list \<Rightarrow> error + pyfloat list" where
  "arr_sub xs ys =
     (if length xs = length ys then Inr (map2 pf_sub xs ys)
      else if length xs = 1 then Inr (map (\<lambda>b. pf_sub (hd xs) b) ys)
      else if length ys = 1 then Inr (map (\<lambda>a. pf_sub a (hd ys)) xs)
      else Inl ValueError)"

section \<open>The models\<close>

text \<open>
  \<^verbatim>\<open>def control_tumor(y, t, theta):
    return theta[0] * y[0] * (1.0 - y[0] / theta[1])\<close>
\<close>

definition control_tumor :: "pyfloat list \<Rightarrow> pyfloat \<Rightarrow> pyfloat list \<Rightarrow> error + pyfloat" where
  "control_tumor y t theta =
     ebind (getitem theta 0) (\<lambda>th0.
     ebind (getitem y 0) (\<lambda>y0.
     ebind (getitem theta 1) (\<lambda>th1.
       Inr (pf_mul (pf_mul th0 y0) (pf_sub (Fin 1) (pf_div y0 th1))))))"

text \<open>
  \<^verbatim>\<open>def treated_tumor(y, t, theta):
    tumor=theta[0] * y[0] * (1.0 - y[0] / theta[1])-theta[2]*y[0]*y[1]
    drug=-theta[3] * y[0] * y[1]
    return [tumor,drug]\<close>
\<close>

definition treated_tumor :: "pyfloat list \<Rightarrow> pyfloat \<Rightarrow> pyfloat list \<Rightarrow> error + pyfloat list" where
  "treated_tumor y t theta =
     ebind (getitem theta 0) (\<lambda>th0.
     ebind (getitem y 0) (\<lambda>y0.
     ebind (getitem theta 1) (\<lambda>th1.
     ebind (getitem theta 2) (\<lambda>th2.
     ebind (getitem y 1) (\<lambda>y1.
     ebind (getitem theta 3) (\<lambda>th3.
       let tumor = pf_sub (pf_mul (pf_mul th0 y0) (pf_sub (Fin 1) (pf_div y0 th1)))
                          (pf_mul (pf_mul th2 y0) y1);
           drug = pf_mul (pf_mul (pf_neg th3) y0) y1
       in Inr [tumor, drug]))))))"

section \<open>The integrator\<close>

text \<open>
  \<open>scipy.integrate.odeint\<close> is a library routine, not code of the notebook. It is a
  parameter of everything that calls it: given the right-hand side, the initial value,
  the time grid and the parameter pair, it returns the column of the trajectory or raises.
\<close>

type_synonym rhs = "pyfloat list \<Rightarrow> pyfloat \<Rightarrow> pyfloat list \<Rightarrow> error + pyfloat"

type_synonym integrator = "rhs \<Rightarrow> pyfloat \<Rightarrow> pyfloat list \<Rightarrow> pyfloat list \<Rightarrow> error + pyfloat list"

text \<open>The time grid \<open>times\<close> of the source is written \<open>ts\<close> below.\<close>

text \<open>
  For evaluating the notebook's functions at concrete inputs, \<open>trivial_odeint\<close> is the
  integrator on the inputs where its answer does not depend on the method of integration:
  the first row of the returned array is the initial value, so a grid of one point gives
  the initial value back, and at a rest point of the model (the right-hand side vanishes
  at the initial value for every time of the grid) the trajectory stays at the initial
  value. Elsewhere it is left undescribed and raises.
\<close>

definition trivial_odeint :: integrator where
  "trivial_odeint func y0 ts args =
     (if length ts = 1 then Inr [y0]
      else if list_all (\<lambda>t. func [y0] t args = Inr (Fin 0)) ts then Inr (map (\<lambda>_. y0) ts)
      else Inl OdeintError)"

section \<open>Likelihood, prior and posterior\<close>



text \<open>
  \<^verbatim>\<open>def log_likelihood_ic(theta, times, y):
    cal_r, cal_K, cal_sigma, cal_ic = theta
    model = odeint(control_tumor, t=times, y0=cal_ic, args=tuple([[cal_r,cal_K]]))
    variance = cal_sigma*cal_sigma
    return -0.5 * np.sum((y - model) ** 2 / variance + np.log(2*np.pi) + np.log(variance))\<close>
\<close>

fun log_likelihood_ic :: "integrator \<Rightarrow> pyfloat list \<Rightarrow> pyfloat list \<Rightarrow> pyfloat list \<Rightarrow> error + pyfloat" where
  "log_likelihood_ic odeint [cal_r, cal_K, cal_sigma, cal_ic] ts y =
     ebind (odeint control_tumor cal_ic ts [cal_r, cal_K]) (\<lambda>model.
       let variance = pf_mul cal_sigma cal_sigma in
       ebind (arr_sub y model) (\<lambda>d.
         Inr (pf_mul (Fin (- 0.5))
               (np_sum (map (\<lambda>x. pf_add (pf_add (pf_div (pf_square x) variance)
                                                 (np_log (pf_mul (Fin 2) (Fin pi))))
                                         (np_log variance)) d)))))"
| "log_likelihood_ic odeint theta ts y = Inl ValueError"


text \<open>
  \<^verbatim>\<open>def log_prior(theta):
    cal_r, cal_K, cal_sigma, cal_ic = theta
    if 0.0 < cal_r < 1.0 and 10.0 < cal_K < 120.0 and 0.1 < cal_sigma < 30.0 and 0.1 < cal_ic < 20.0:
        return 0.0
    return -np.inf\<close>
\<close>

fun log_prior :: "pyfloat list \<Rightarrow> error + pyfloat" where
  "log_prior [cal_r, cal_K, cal_sigma, cal_ic] =
     (if pf_lt (Fin 0) cal_r \<and> pf_lt cal_r (Fin 1)
         \<and> pf_lt (Fin 10) cal_K \<and> pf_lt cal_K (Fin 120)
         \<and> pf_lt (Fin 0.1) cal_sigma \<and> pf_lt cal_sigma (Fin 30)
         \<and> pf_lt (Fin 0.1) cal_ic \<and> pf_lt cal_ic (Fin 20)
      then Inr (Fin 0)
      else Inr NInf)"
| "log_prior theta = Inl ValueError"

text \<open>
  \<^verbatim>\<open>def log_probability(theta, times, y):
    lp = log_prior(theta)
    if not np.isfinite(lp):
        return -np.inf
    return lp + log_likelihood_ic(theta, times, y)\<close>
\<close>

definition log_probability :: "integrator \<Rightarrow> pyfloat list \<Rightarrow> pyfloat list \<Rightarrow> pyfloat list \<Rightarrow> error + pyfloat" where
  "log_probability odeint theta ts y =
     ebind (log_prior theta) (\<lambda>lp.
       if \<not> isfinite lp then Inr NInf
       else ebind (log_likelihood_ic odeint theta ts y) (\<lambda>ll. Inr (pf_add lp ll)))"

section \<open>Synthetic data\<close>

text \<open>
  \<^verbatim>\<open>times = np.arange(0,50,1)
true_r = 0.25
true_K = 60
true_ic = 1
y = odeint(control_tumor, t=times, y0=true_ic, args=tuple([[true_r,true_K]]))\<close>
\<close>

definition generating_the_data :: "integrator \<Rightarrow> error + pyfloat list" where
  "generating_the_data odeint =
     (let ts = map (\<lambda>n. Fin (real n)) [0..<50];
          true_r = Fin 0.25;
          true_K = Fin 60;
          true_ic = Fin 1
      in odeint control_tumor true_ic ts [true_r, true_K])"

text \<open>
  \<open>np.random\<close> is a library with one global generator. Its state is a value of a type
  \<open>'g\<close> that the notebook's cells pass along; seeding and drawing are parameters.
  \<open>random_seed n\<close> is the state that \<open>np.random.seed(n)\<close> installs, whatever the state
  was; \<open>random_normal loc scale g\<close> is the array \<open>np.random.normal(loc, scale)\<close> returns
  in state \<open>g\<close>, with the state it leaves.
\<close>

record 'g np_random =
  random_seed :: "nat \<Rightarrow> 'g"
  random_normal :: "pyfloat list \<Rightarrow> pyfloat \<Rightarrow> 'g \<Rightarrow> pyfloat list \<times> 'g"

text \<open>\<^verbatim>\<open>yobs[yobs < 0] = 0\<close> on one entry.\<close>

definition clip_negative :: "pyfloat \<Rightarrow> pyfloat" where
  "clip_negative v = (if pf_lt v (Fin 0) then Fin 0 else v)"

text \<open>
  \<^verbatim>\<open>true_sigma = 3.6
np.random.seed(2021) # For reproducibility
yobs = np.random.normal(y,true_sigma)
yobs[yobs < 0] = 0\<close>
  The cell runs in the generator state \<open>g0\<close> that the cells before it left.
\<close>

definition adding_perturbation :: "'g np_random \<Rightarrow> pyfloat list \<Rightarrow> 'g \<Rightarrow> pyfloat list \<times> 'g" where
  "adding_perturbation rnd y g0 =
     (let true_sigma = Fin 3.6;
          g1 = random_seed rnd 2021;
          (yobs, g2) = random_normal rnd y true_sigma g1
      in (map clip_negative yobs, g2))"

text \<open>The two cells in sequence: the trajectory at the true parameters, then the noise.\<close>

definition synthetic_data :: "integrator \<Rightarrow> 'g np_random \<Rightarrow> 'g \<Rightarrow> (error + pyfloat list) \<times> 'g" where
  "synthetic_data odeint rnd g0 =
     (case generating_the_data odeint of
        Inl e \<Rightarrow> (Inl e, g0)
      | Inr y \<Rightarrow> (let (yobs, g) = adding_perturbation rnd y g0 in (Inr yobs, g)))"

text \<open>
  The trajectory of the treated model is an array of shape \<open>(Nt, 2)\<close>, modelled as the list
  of its rows \<open>(tumor, drug)\<close>. Assigning to a column takes an array with one entry per
  row, or a single entry which is repeated; otherwise NumPy raises.
\<close>

definition assign_column0 :: "('a \<times> 'b) list \<Rightarrow> 'a list \<Rightarrow> error + ('a \<times> 'b) list" where
  "assign_column0 a v =
     (if length v = length a then Inr (map2 (\<lambda>row x. (x, snd row)) a v)
      else if length v = 1 then Inr (map (\<lambda>row. (hd v, snd row)) a)
      else Inl ValueError)"

definition assign_column1 :: "('a \<times> 'b) list \<Rightarrow> 'b list \<Rightarrow> error + ('a \<times> 'b) list" where
  "assign_column1 a v =
     (if length v = length a then Inr (map2 (\<lambda>row x. (fst row, x)) a v)
      else if length v = 1 then Inr (map (\<lambda>row. (fst row, hd v)) a)
      else Inl ValueError)"

text \<open>
  \<^verbatim>\<open>true_sigmaT = 3.6
np.random.seed(2021) # For reproducibility
yobs = np.copy(y)
yobs[:,0] = np.random.normal(y[:,0],true_sigmaT)
true_sigmaD = 0.2
yobs[:,1] = np.random.normal(y[:,1],true_sigmaD)
yobs[yobs < 0] = 0\<close>
\<close>

definition adding_perturbation_treated ::
  "'g np_random \<Rightarrow> (pyfloat \<times> pyfloat) list \<Rightarrow> 'g \<Rightarrow> (error + (pyfloat \<times> pyfloat) list) \<times> 'g" where
  "adding_perturbation_treated rnd y g0 =
     (let true_sigmaT = Fin 3.6;
          g1 = random_seed rnd 2021;
          yobs = y;
          (tumor, g2) = random_normal rnd (map fst y) true_sigmaT g1
      in case assign_column0 yobs tumor of
           Inl e \<Rightarrow> (Inl e, g2)
         | Inr yobs1 \<Rightarrow>
             (let true_sigmaD = Fin 0.2;
                  (drug, g3) = random_normal rnd (map snd y) true_sigmaD g2
              in case assign_column1 yobs1 drug of
                   Inl e \<Rightarrow> (Inl e, g3)
                 | Inr yobs2 \<Rightarrow> (Inr (map (\<lambda>(a, b). (clip_negative a, clip_negative b)) yobs2), g3)))"

text \<open>
  For evaluating the cells at concrete inputs, \<open>draw_below_mean\<close> is a stand-in for the
  library: its state is the seed plus the number of calls since, and every draw lies one
  standard deviation below its mean.
\<close>

definition draw_below_mean :: "nat np_random" where
  "draw_below_mean =
     \<lparr>random_seed = (\<lambda>n. n),
      random_normal = (\<lambda>loc scale g. (map (\<lambda>m. pf_sub m scale) loc, Suc g))\<rparr>"

section \<open>The logistic curve\<close>

text \<open>
  The solution of \<open>dN/dt = r N (1 - N/K)\<close> that takes the value \<open>y0\<close> at time \<open>t0\<close>, in
  closed form. It is the trajectory an exact integration of \<open>control_tumor\<close> follows.
\<close>

definition logistic_curve :: "real \<Rightarrow> real \<Rightarrow> real \<Rightarrow> real \<Rightarrow> real \<Rightarrow> real" where
  "logistic_curve r K y0 t0 t = K / (1 + (K / y0 - 1) * exp (- r * (t - t0)))"

section \<open>Facts about the floating-point operations\<close>

lemma pf_add_zero_left: "pf_add (Fin 0) v = v"
  by (cases v) simp_all

lemma pf_lt_between:
  "(pf_lt (Fin a) v \<and> pf_lt v (Fin b)) = (\<exists>x. v = Fin x \<and> a < x \<and> x < b)"
  by (cases v) auto

lemma foldl_pf_add_Fin: "foldl pf_add (Fin a) (map Fin zs) = Fin (a + sum_list zs)"
  by (induction zs arbitrary: a) (simp_all add: add.assoc)

lemma np_sum_Fin: "np_sum (map Fin zs) = Fin (sum_list zs)"
  by (simp add: np_sum_def foldl_pf_add_Fin)

lemma arr_sub_Fin:
  assumes "length D = length Y"
  shows "arr_sub (map Fin D) (map Fin Y) = Inr (map (\<lambda>(d, m). Fin (d - m)) (zip D Y))"
  using assms by (simp add: arr_sub_def zip_map_map pf_sub_def case_prod_unfold)

lemma sum_list_zip_nth:
  assumes "length D = length Y"
  shows "sum_list (map f (zip D Y)) = (\<Sum>i<length D. f (D ! i, Y ! i))"
proof -
  have "sum_list (map f (zip D Y)) = (\<Sum>i = 0..<length (zip D Y). map f (zip D Y) ! i)"
    by (simp add: sum_list_sum_nth)
  also have "\<dots> = (\<Sum>i = 0..<length D. f (D ! i, Y ! i))"
    using assms by (intro sum.cong) simp_all
  finally show ?thesis
    by (simp add: atLeast0LessThan)
qed


lemma summand_ic_Fin:
  assumes "s \<noteq> 0"
  shows "pf_add (pf_add (pf_div (pf_square (Fin d)) (pf_mul (Fin s) (Fin s)))
                        (np_log (pf_mul (Fin 2) (Fin pi))))
                (np_log (pf_mul (Fin s) (Fin s)))
         = Fin (ln (2 * pi) + ln (s\<^sup>2) + d\<^sup>2 / s\<^sup>2)"
  using assms by (simp add: pf_square_def power2_eq_square)


lemma gauss_sum_ic_Fin:
  assumes "s \<noteq> 0" "length D = length Y"
  shows "np_sum (map (\<lambda>x. pf_add (pf_add (pf_div (pf_square x) (pf_mul (Fin s) (Fin s)))
                        (np_log (pf_mul (Fin 2) (Fin pi))))
                (np_log (pf_mul (Fin s) (Fin s))))
            (map (\<lambda>(d, m). Fin (d - m)) (zip D Y)))
       = Fin (\<Sum>i<length D. ln (2 * pi) + ln (s\<^sup>2) + (D ! i - Y ! i)\<^sup>2 / s\<^sup>2)"
proof -
  have "map (\<lambda>x. pf_add (pf_add (pf_div (pf_square x) (pf_mul (Fin s) (Fin s)))
                        (np_log (pf_mul (Fin 2) (Fin pi))))
                (np_log (pf_mul (Fin s) (Fin s))))
            (map (\<lambda>(d, m). Fin (d - m)) (zip D Y))
      = map Fin (map (\<lambda>(d, m). ln (2 * pi) + ln (s\<^sup>2) + (d - m)\<^sup>2 / s\<^sup>2) (zip D Y))"
    by (simp only: map_map o_def case_prod_unfold summand_ic_Fin [OF assms(1)])
  then show ?thesis
    by (simp only: np_sum_Fin sum_list_zip_nth [OF assms(2)] prod.case)
qed


lemma log_likelihood_ic_Fin:
  assumes "s \<noteq> 0" "length D = length Y"
      and "odeint control_tumor ic ts [r, K] = Inr (map Fin Y)"
  shows "log_likelihood_ic odeint [r, K, Fin s, ic] ts (map Fin D)
       = Inr (Fin (- 1/2 * (\<Sum>i<length D. ln (2 * pi) + ln (s\<^sup>2) + (D ! i - Y ! i)\<^sup>2 / s\<^sup>2)))"
proof -
  have "log_likelihood_ic odeint [r, K, Fin s, ic] ts (map Fin D)
      = Inr (pf_mul (Fin (- 0.5))
              (Fin (\<Sum>i<length D. ln (2 * pi) + ln (s\<^sup>2) + (D ! i - Y ! i)\<^sup>2 / s\<^sup>2)))"
    by (simp only: log_likelihood_ic.simps assms(3) ebind_def sum.case Let_def
          arr_sub_Fin [OF assms(2)] gauss_sum_ic_Fin [OF assms(1) assms(2)])
  then show ?thesis
    by simp
qed

section \<open>The logistic right-hand side\<close>

text \<open>
  The carrying capacity is a rest point of the logistic model, and strictly between zero
  and the carrying capacity the population grows.
\<close>

lemma control_tumor_rest:
  assumes "K \<noteq> 0"
  shows "control_tumor [Fin K] t [Fin r, Fin K] = Inr (Fin 0)"
  using assms by (simp add: control_tumor_def getitem_def ebind_def pf_sub_def)

lemma control_tumor_grows:
  assumes "0 < r" and "0 < N" and "N < K"
  shows "\<exists>d. control_tumor [Fin N] t [Fin r, Fin K] = Inr (Fin d) \<and> 0 < d"
proof -
  have "0 < K" using assms by simp
  then have "0 < 1 - N / K" using assms(3) by simp
  then have "0 < r * N * (1 - N / K)" using assms(1) assms(2) by simp
  moreover have "control_tumor [Fin N] t [Fin r, Fin K] = Inr (Fin (r * N * (1 - N / K)))"
    using \<open>0 < K\<close> by (simp add: control_tumor_def getitem_def ebind_def pf_sub_def)
  ultimately show ?thesis by blast
qed

section \<open>The solution of the logistic equation\<close>

lemma logistic_denominator:
  fixes r K y0 t0 t :: real
  assumes "0 < y0" and "y0 < K"
  shows "1 < 1 + (K / y0 - 1) * exp (- r * (t - t0))"
proof -
  have "1 < K / y0" using assms by (simp add: pos_less_divide_eq)
  then have "0 < (K / y0 - 1) * exp (- r * (t - t0))" by simp
  then show ?thesis by simp
qed

lemma logistic_curve_initial:
  assumes "0 < y0" and "y0 < K"
  shows "logistic_curve r K y0 t0 t0 = y0"
  using assms by (simp add: logistic_curve_def)

lemma logistic_curve_bounds:
  assumes "0 < y0" and "y0 < K"
  shows "0 < logistic_curve r K y0 t0 t \<and> logistic_curve r K y0 t0 t < K"
proof -
  define g where "g = 1 + (K / y0 - 1) * exp (- r * (t - t0))"
  have g: "1 < g"
    unfolding g_def using assms by (rule logistic_denominator)
  have K: "0 < K" using assms by simp
  have "0 < K / g" using g K by simp
  moreover have "K / g < K"
    using g K by (simp add: pos_divide_less_eq)
  ultimately show ?thesis
    unfolding logistic_curve_def g_def by simp
qed

lemma logistic_curve_deriv:
  assumes "0 < y0" and "y0 < K"
  shows "(logistic_curve r K y0 t0 has_real_derivative
            r * logistic_curve r K y0 t0 t * (1 - logistic_curve r K y0 t0 t / K)) (at t)"
proof -
  define c where "c = K / y0 - 1"
  define e where "e = exp (- r * (t - t0))"
  have "1 < 1 + c * e"
    unfolding c_def e_def using assms by (rule logistic_denominator)
  then have g: "1 + c * e \<noteq> 0" by simp
  have K: "K \<noteq> 0" using assms by simp
  have d: "((\<lambda>t. K / (1 + c * exp (- r * (t - t0)))) has_real_derivative
          - (K * (c * (e * (- r)))) / ((1 + c * e) * (1 + c * e))) (at t)"
    using g unfolding e_def by (auto intro!: derivative_eq_intros)
  define G where "G = 1 + c * e"
  have ce: "c * e = G - 1" and G: "G \<noteq> 0"
    using g by (simp_all add: G_def)
  have "K * ((G - 1) * r) / (G * G) = r * (K / G) * (1 - (K / G) / K)"
    using G K by (simp add: field_simps)
  then have "- (K * (c * (e * (- r)))) / ((1 + c * e) * (1 + c * e))
      = r * (K / (1 + c * e)) * (1 - (K / (1 + c * e)) / K)"
    unfolding G_def [symmetric] by (simp add: ce mult.assoc [symmetric])
  with d show ?thesis
    unfolding logistic_curve_def [abs_def] c_def e_def by simp
qed

lemma logistic_curve_strict_mono:
  assumes "0 < r" and "0 < y0" and "y0 < K" and "s < t"
  shows "logistic_curve r K y0 t0 s < logistic_curve r K y0 t0 t"
proof -
  define c where "c = K / y0 - 1"
  have c: "0 < c" unfolding c_def using assms by (simp add: pos_less_divide_eq)
  have "exp (- r * (t - t0)) < exp (- r * (s - t0))"
    using assms(1) assms(4) by simp
  then have lt: "1 + c * exp (- r * (t - t0)) < 1 + c * exp (- r * (s - t0))"
    using c by simp
  have pos: "0 < 1 + c * exp (- r * (t - t0))"
    using logistic_denominator [OF assms(2) assms(3), of r t t0] unfolding c_def by simp
  have K: "0 < K" using assms by simp
  have "K / (1 + c * exp (- r * (s - t0))) < K / (1 + c * exp (- r * (t - t0)))"
    using lt pos K by (rule_tac divide_strict_left_mono) (auto intro: mult_pos_pos less_trans)
  then show ?thesis
    unfolding logistic_curve_def c_def .
qed

lemma exp_decay_tendsto:
  fixes r t0 :: real
  assumes "0 < r"
  shows "((\<lambda>t. exp (- r * (t - t0))) \<longlongrightarrow> 0) at_top"
proof -
  have "LIM t at_top. - t0 + t :> at_top"
    by (rule filterlim_tendsto_add_at_top [OF tendsto_const filterlim_ident])
  then have shift: "LIM t at_top. t - t0 :> at_top"
    by (simp add: algebra_simps)
  have "LIM t at_top. - r * (t - t0) :> at_bot"
    using assms by (intro filterlim_tendsto_neg_mult_at_bot [OF tendsto_const _ shift]) simp
  then show ?thesis
    by (rule filterlim_compose [OF exp_at_bot])
qed

lemma logistic_curve_tendsto:
  assumes "0 < r" and "0 < y0" and "y0 < K"
  shows "(logistic_curve r K y0 t0 \<longlongrightarrow> K) at_top"
proof -
  have "((\<lambda>t. K / (1 + (K / y0 - 1) * exp (- r * (t - t0)))) \<longlongrightarrow> K / (1 + (K / y0 - 1) * 0)) at_top"
    by (intro tendsto_intros exp_decay_tendsto [OF assms(1)]) simp
  then show ?thesis
    unfolding logistic_curve_def [abs_def] by simp
qed

lemma control_tumor_Fin:
  assumes "K \<noteq> 0"
  shows "control_tumor [Fin N] t [Fin r, Fin K] = Inr (Fin (r * N * (1 - N / K)))"
  using assms by (simp add: control_tumor_def getitem_def ebind_def pf_sub_def)

lemma logistic_ode_unique:
  fixes N L :: "real \<Rightarrow> real"
  assumes K: "K \<noteq> 0"
      and N: "\<And>t. (N has_real_derivative r * N t * (1 - N t / K)) (at t)"
      and L: "\<And>t. (L has_real_derivative r * L t * (1 - L t / K)) (at t)"
      and init: "N t0 = L t0" and T: "t0 \<le> T"
  shows "N T = L T"
proof -
  define a where "a = (\<lambda>t. r * (1 - (N t + L t) / K))"
  define D where "D = (\<lambda>t. N t - L t)"
  have D: "(D has_real_derivative D t * a t) (at t)" for t
  proof -
    have "(D has_real_derivative r * N t * (1 - N t / K) - r * L t * (1 - L t / K)) (at t)"
      unfolding D_def by (intro derivative_intros N L)
    moreover have "r * N t * (1 - N t / K) - r * L t * (1 - L t / K) = D t * a t"
      using K by (simp add: D_def a_def field_simps)
    ultimately show ?thesis by simp
  qed
  have "isCont N t" "isCont L t" for t
    using N L DERIV_isCont by blast+
  then have "isCont a t" for t
    unfolding a_def using K by (intro continuous_intros) simp_all
  then obtain M where M: "\<forall>x. t0 \<le> x \<and> x \<le> T \<longrightarrow> a x \<le> M"
    using isCont_bounded [OF T, of a] by blast
  define E where "E = (\<lambda>t. (D t)\<^sup>2 * exp (- 2 * M * (t - t0)))"
  have E: "(E has_real_derivative 2 * (D t)\<^sup>2 * exp (- 2 * M * (t - t0)) * (a t - M)) (at t)" for t
  proof -
    have "(E has_real_derivative
            2 * D t * (D t * a t) * exp (- 2 * M * (t - t0))
            + (D t)\<^sup>2 * (exp (- 2 * M * (t - t0)) * (- 2 * M))) (at t)"
      unfolding E_def by (auto intro!: derivative_eq_intros D simp: power2_eq_square)
    moreover have "2 * D t * (D t * a t) * exp (- 2 * M * (t - t0))
            + (D t)\<^sup>2 * (exp (- 2 * M * (t - t0)) * (- 2 * M))
          = 2 * (D t)\<^sup>2 * exp (- 2 * M * (t - t0)) * (a t - M)"
      by (simp add: power2_eq_square algebra_simps)
    ultimately show ?thesis by simp
  qed
  have "E T \<le> E t0"
  proof (rule DERIV_nonpos_imp_nonincreasing [OF T])
    fix x assume x: "t0 \<le> x" "x \<le> T"
    then have le: "a x - M \<le> 0" using M by simp
    have ge: "0 \<le> 2 * (D x)\<^sup>2 * exp (- 2 * M * (x - t0))" by simp
    have "2 * (D x)\<^sup>2 * exp (- 2 * M * (x - t0)) * (a x - M) \<le> 0"
      using ge le by (rule mult_nonneg_nonpos)
    with E [of x] show "\<exists>y. (E has_real_derivative y) (at x) \<and> y \<le> 0"
      by blast
  qed
  moreover have "E t0 = 0"
    using init by (simp add: E_def D_def)
  moreover have "0 \<le> E T"
    by (simp add: E_def)
  ultimately have "E T = 0" by simp
  then have "D T = 0"
    by (simp add: E_def)
  then show ?thesis
    by (simp add: D_def)
qed

section \<open>Not-a-number and infinities in the trajectory\<close>








lemma pf_div_NaN_left: "pf_div NaN b = NaN"
  by simp












section \<open>Clipping and column assignment\<close>

lemma clip_negative_nonneg:
  assumes "v \<noteq> NaN"
  shows "clip_negative v = PInf \<or> (\<exists>x\<ge>0. clip_negative v = Fin x)"
  using assms by (cases v) (auto simp: clip_negative_def)

lemma clip_negative_NaN: "clip_negative v = NaN \<longleftrightarrow> v = NaN"
  by (cases v) (auto simp: clip_negative_def)

lemma hd_of_singleton: "length v = 1 \<Longrightarrow> hd v \<in> set v"
  by (cases v) simp_all

lemma assign_column0_fst:
  assumes "assign_column0 a v = Inr a'"
  shows "fst ` set a' \<subseteq> set v"
  using assms
  by (auto simp: assign_column0_def hd_of_singleton split: if_splits dest!: set_zip_rightD)

lemma assign_column1_fst:
  assumes "assign_column1 a v = Inr a'"
  shows "fst ` set a' \<subseteq> fst ` set a"
  using assms
  by (auto simp: assign_column1_def split: if_splits dest!: set_zip_leftD)

lemma assign_column1_snd:
  assumes "assign_column1 a v = Inr a'"
  shows "snd ` set a' \<subseteq> set v"
  using assms
  by (auto simp: assign_column1_def hd_of_singleton split: if_splits dest!: set_zip_rightD)

section \<open>The prior\<close>


lemma log_prior_inside:
  "log_prior [r, K, sigma, ic] = Inr (Fin 0) \<longleftrightarrow>
     (\<exists>x. r = Fin x \<and> 0 < x \<and> x < 1) \<and> (\<exists>x. K = Fin x \<and> 10 < x \<and> x < 120)
     \<and> (\<exists>x. sigma = Fin x \<and> 0.1 < x \<and> x < 30) \<and> (\<exists>x. ic = Fin x \<and> 0.1 < x \<and> x < 20)"
proof -
  have "log_prior [r, K, sigma, ic] = Inr (Fin 0) \<longleftrightarrow>
      (pf_lt (Fin 0) r \<and> pf_lt r (Fin 1)) \<and> (pf_lt (Fin 10) K \<and> pf_lt K (Fin 120))
    \<and> (pf_lt (Fin 0.1) sigma \<and> pf_lt sigma (Fin 30)) \<and> (pf_lt (Fin 0.1) ic \<and> pf_lt ic (Fin 20))"
    by simp
  then show ?thesis
    by (simp only: pf_lt_between)
qed

lemma log_prior_cases:
  "log_prior [r, K, sigma, ic] = Inr (Fin 0) \<or> log_prior [r, K, sigma, ic] = Inr NInf"
  by simp

lemma log_prior_Inr_length:
  assumes "log_prior theta = Inr lp"
  shows "\<exists>r K sigma ic. theta = [r, K, sigma, ic]"
  using assms by (cases theta rule: log_prior.cases) simp_all

section \<open>The claims\<close>

text \<open>
  Claim C1. For a parameter vector \<open>(r, K, sigma, ic)\<close> with a component outside the box
  \<open>r \<in> (0,1)\<close>, \<open>K \<in> (10,120)\<close>, \<open>sigma \<in> (0.1,30)\<close>, \<open>ic \<in> (0.1,20)\<close> (an infinite or
  not-a-number component is outside), \<open>log_prior\<close> is minus infinity and \<open>log_probability\<close>
  is minus infinity for every dataset. The result holds for every integrator, also one that
  raises on each call, whose exception the likelihood would pass on: the likelihood, and
  with it the forward model, is not evaluated.
\<close>

theorem log_probability_outside_box:
  assumes "\<not> (\<exists>r' K' s' c'. r = Fin r' \<and> K = Fin K' \<and> sigma = Fin s' \<and> ic = Fin c'
              \<and> 0 < r' \<and> r' < 1 \<and> 10 < K' \<and> K' < 120
              \<and> 0.1 < s' \<and> s' < 30 \<and> 0.1 < c' \<and> c' < 20)"
  shows "log_prior [r, K, sigma, ic] = Inr NInf
       \<and> log_probability odeint [r, K, sigma, ic] ts y = Inr NInf"
proof -
  have "log_prior [r, K, sigma, ic] \<noteq> Inr (Fin 0)"
    using assms unfolding log_prior_inside by blast
  with log_prior_cases [of r K sigma ic] have lp: "log_prior [r, K, sigma, ic] = Inr NInf"
    by blast
  then show ?thesis
    by (simp add: log_probability_def ebind_def)
qed

theorem log_probability_outside_box_witness:
  "log_prior [Fin 2, Fin 50, Fin 1, Fin 1] = Inr NInf
   \<and> log_probability (\<lambda>f y0 t args. Inl OdeintError)
        [Fin 2, Fin 50, Fin 1, Fin 1] [Fin 0, Fin 1] [Fin 1, Fin 2] = Inr NInf"
  using log_probability_outside_box [of "Fin 2" "Fin 50" "Fin 1" "Fin 1"
      "\<lambda>f y0 t args. Inl OdeintError" "[Fin 0, Fin 1]" "[Fin 1, Fin 2]"]
  by simp









text \<open>
  Claim C5. After clipping, every entry of the synthetic observations is greater than or
  equal to zero, at every time point, in the one-compartment data and in both columns
  (tumor, drug) of the two-compartment data, whenever the sampler returns numbers (no
  not-a-number among the draws).
\<close>

theorem yobs_nonnegative:
  assumes "NaN \<notin> set (fst (random_normal rnd y (Fin 3.6) (random_seed rnd 2021)))"
      and "NaN \<notin> set (fst (random_normal rnd (map fst y2) (Fin 3.6) (random_seed rnd 2021)))"
      and "NaN \<notin> set (fst (random_normal rnd (map snd y2) (Fin 0.2)
                            (snd (random_normal rnd (map fst y2) (Fin 3.6) (random_seed rnd 2021)))))"
  shows "(\<forall>v\<in>set (fst (adding_perturbation rnd y g0)). v = PInf \<or> (\<exists>x\<ge>0. v = Fin x))
       \<and> (\<forall>yobs. fst (adding_perturbation_treated rnd y2 g0) = Inr yobs \<longrightarrow>
            (\<forall>(a, b)\<in>set yobs. (a = PInf \<or> (\<exists>x\<ge>0. a = Fin x)) \<and> (b = PInf \<or> (\<exists>x\<ge>0. b = Fin x))))"
proof (intro conjI allI impI)
  show "\<forall>v\<in>set (fst (adding_perturbation rnd y g0)). v = PInf \<or> (\<exists>x\<ge>0. v = Fin x)"
  proof
    fix v assume "v \<in> set (fst (adding_perturbation rnd y g0))"
    then obtain u where u: "u \<in> set (fst (random_normal rnd y (Fin 3.6) (random_seed rnd 2021)))"
        and v: "v = clip_negative u"
      by (auto simp: adding_perturbation_def Let_def case_prod_unfold)
    from u assms(1) have "u \<noteq> NaN" by auto
    then show "v = PInf \<or> (\<exists>x\<ge>0. v = Fin x)"
      unfolding v by (rule clip_negative_nonneg)
  qed
next
  fix yobs
  assume run: "fst (adding_perturbation_treated rnd y2 g0) = Inr yobs"
  let ?n0 = "random_normal rnd (map fst y2) (Fin 3.6) (random_seed rnd 2021)"
  let ?n1 = "random_normal rnd (map snd y2) (Fin 0.2) (snd ?n0)"
  obtain yobs1 where c0: "assign_column0 y2 (fst ?n0) = Inr yobs1"
    using run by (cases "assign_column0 y2 (fst ?n0)")
      (simp_all add: adding_perturbation_treated_def Let_def case_prod_unfold)
  obtain yobs2 where c1: "assign_column1 yobs1 (fst ?n1) = Inr yobs2"
    using run c0 by (cases "assign_column1 yobs1 (fst ?n1)")
      (simp_all add: adding_perturbation_treated_def Let_def case_prod_unfold)
  have out: "yobs = map (\<lambda>(a, b). (clip_negative a, clip_negative b)) yobs2"
    using run c0 c1 by (simp add: adding_perturbation_treated_def Let_def case_prod_unfold)
  have fst1: "fst ` set yobs1 \<subseteq> set (fst ?n0)"
    using c0 by (rule assign_column0_fst)
  have "fst ` set yobs2 \<subseteq> fst ` set yobs1" and "snd ` set yobs2 \<subseteq> set (fst ?n1)"
    using c1 by (rule assign_column1_fst, rule assign_column1_snd)
  with fst1 assms(2) assms(3) have nn: "\<forall>(a, b)\<in>set yobs2. a \<noteq> NaN \<and> b \<noteq> NaN"
    by (fastforce simp: image_subset_iff)
  show "\<forall>(a, b)\<in>set yobs. (a = PInf \<or> (\<exists>x\<ge>0. a = Fin x)) \<and> (b = PInf \<or> (\<exists>x\<ge>0. b = Fin x))"
    unfolding out using nn clip_negative_nonneg by fastforce
qed

theorem yobs_nonnegative_witness:
  "fst (adding_perturbation draw_below_mean [Fin 1, Fin 5] 7) = [Fin 0, Fin 1.4]
   \<and> list_all (\<lambda>v. v = PInf \<or> (\<exists>x\<ge>0. v = Fin x))
        (fst (adding_perturbation draw_below_mean [Fin 1, Fin 5] 7))
   \<and> fst (adding_perturbation_treated draw_below_mean [(Fin 1, Fin 5), (Fin 4, Fin 0.1)] 7)
       = Inr [(Fin 0, Fin 4.8), (Fin 0.4, Fin 0)]
   \<and> list_all (\<lambda>(a, b). (a = PInf \<or> (\<exists>x\<ge>0. a = Fin x)) \<and> (b = PInf \<or> (\<exists>x\<ge>0. b = Fin x)))
        [(Fin 0, Fin 4.8), (Fin 0.4, Fin 0)]"
proof -
  have run1: "fst (adding_perturbation draw_below_mean [Fin 1, Fin 5] 7) = [Fin 0, Fin 1.4]"
    by (simp add: adding_perturbation_def draw_below_mean_def clip_negative_def pf_sub_def)
  have run2: "fst (adding_perturbation_treated draw_below_mean [(Fin 1, Fin 5), (Fin 4, Fin 0.1)] 7)
       = Inr [(Fin 0, Fin 4.8), (Fin 0.4, Fin 0)]"
    by (simp add: adding_perturbation_treated_def draw_below_mean_def clip_negative_def pf_sub_def
          assign_column0_def assign_column1_def)
  have h1: "NaN \<notin> set (fst (random_normal draw_below_mean [Fin 1, Fin 5] (Fin 3.6)
                                (random_seed draw_below_mean 2021)))"
    by (simp add: draw_below_mean_def pf_sub_def)
  have h2: "NaN \<notin> set (fst (random_normal draw_below_mean (map fst [(Fin 1, Fin 5), (Fin 4, Fin 0.1)])
                                (Fin 3.6) (random_seed draw_below_mean 2021)))"
    by (simp add: draw_below_mean_def pf_sub_def)
  have h3: "NaN \<notin> set (fst (random_normal draw_below_mean (map snd [(Fin 1, Fin 5), (Fin 4, Fin 0.1)])
                                (Fin 0.2)
                                (snd (random_normal draw_below_mean
                                        (map fst [(Fin 1, Fin 5), (Fin 4, Fin 0.1)]) (Fin 3.6)
                                        (random_seed draw_below_mean 2021)))))"
    by (simp add: draw_below_mean_def pf_sub_def)
  show ?thesis
    using yobs_nonnegative [OF h1 h2 h3, of 7] run1 run2
    by (simp add: list_all_iff)
qed

text \<open>
  Claim C6. Synthetic data generation is deterministic. With the seed 2021, the true
  parameters, the initial value and the time grid that the cells fix, two runs that start
  in different states of the global generator produce the same observations: the cell
  seeds the generator before it draws. The same holds for the cell that perturbs the
  trajectory of the treated model.
\<close>

theorem synthetic_data_deterministic:
  "fst (synthetic_data odeint rnd g) = fst (synthetic_data odeint rnd g')
   \<and> adding_perturbation rnd y g = adding_perturbation rnd y g'
   \<and> adding_perturbation_treated rnd y2 g = adding_perturbation_treated rnd y2 g'"
proof -
  have one: "adding_perturbation rnd z g = adding_perturbation rnd z g'" for z
    by (simp add: adding_perturbation_def)
  have "fst (synthetic_data odeint rnd g) = fst (synthetic_data odeint rnd g')"
    by (cases "generating_the_data odeint") (simp_all add: synthetic_data_def one)
  moreover have "adding_perturbation_treated rnd y2 g = adding_perturbation_treated rnd y2 g'"
    by (simp add: adding_perturbation_treated_def)
  ultimately show ?thesis
    using one by simp
qed

text \<open>
  Claim C7. Let \<open>r > 0\<close>, \<open>K > 0\<close> and the initial state \<open>y0\<close> lie strictly between 0 and
  \<open>K\<close>, and let \<open>N\<close> be the trajectory of the forward model: \<open>N\<close> starts at \<open>y0\<close> at time
  \<open>t0\<close> and its derivative at every time is what \<open>control_tumor\<close> returns there. Then \<open>N\<close>
  is strictly increasing from \<open>t0\<close> on, stays strictly between 0 and \<open>K\<close>, and tends to
  \<open>K\<close> as time grows. An integrator that returns this trajectory on an increasing time
  grid returns a strictly increasing array with entries between 0 and \<open>K\<close>.
\<close>

theorem logistic_trajectory_increasing:
  fixes N :: "real \<Rightarrow> real"
  assumes "0 < r" and "0 < K" and "0 < y0" and "y0 < K"
      and init: "N t0 = y0"
      and ode: "\<And>t. \<exists>d. control_tumor [Fin (N t)] (Fin t) [Fin r, Fin K] = Inr (Fin d)
                      \<and> (N has_real_derivative d) (at t)"
  shows "(\<forall>s t. t0 \<le> s \<and> s < t \<longrightarrow> N s < N t)
       \<and> (\<forall>t\<ge>t0. 0 < N t \<and> N t < K)
       \<and> (N \<longlongrightarrow> K) at_top
       \<and> (sorted_wrt (<) ts \<and> (\<forall>t\<in>set ts. t0 \<le> t)
            \<and> odeint control_tumor (Fin y0) (map Fin ts) [Fin r, Fin K]
                = Inr (map (\<lambda>t. Fin (N t)) ts)
          \<longrightarrow> (\<exists>traj. odeint control_tumor (Fin y0) (map Fin ts) [Fin r, Fin K] = Inr (map Fin traj)
                 \<and> length traj = length ts \<and> sorted_wrt (<) traj
                 \<and> (\<forall>v\<in>set traj. 0 < v \<and> v < K)))"
proof -
  let ?L = "logistic_curve r K y0 t0"
  have K: "K \<noteq> 0" using assms(2) by simp
  have N: "(N has_real_derivative r * N t * (1 - N t / K)) (at t)" for t
    using ode [of t] by (simp add: control_tumor_Fin [OF K])
  have L: "(?L has_real_derivative r * ?L t * (1 - ?L t / K)) (at t)" for t
    using assms(3) assms(4) by (rule logistic_curve_deriv)
  have "N t0 = ?L t0"
    using init logistic_curve_initial [OF assms(3) assms(4), of r t0] by simp
  then have eq: "N t = ?L t" if "t0 \<le> t" for t
    using logistic_ode_unique [of K N r ?L t0 t] K N L that by blast
  have mono: "N s < N t" if "t0 \<le> s" "s < t" for s t
    using that eq [of s] eq [of t] logistic_curve_strict_mono [OF assms(1) assms(3) assms(4), of s t t0]
    by simp
  have bounds: "0 < N t \<and> N t < K" if "t0 \<le> t" for t
    using that eq [of t] logistic_curve_bounds [OF assms(3) assms(4), of r t0 t] by simp
  have "eventually (\<lambda>t. ?L t = N t) at_top"
    using eventually_ge_at_top [of t0] by (rule eventually_mono) (simp add: eq)
  with logistic_curve_tendsto [OF assms(1) assms(3) assms(4), of t0]
  have lim: "(N \<longlongrightarrow> K) at_top"
    by (rule Lim_transform_eventually)
  have grid: "\<exists>traj. odeint control_tumor (Fin y0) (map Fin ts) [Fin r, Fin K] = Inr (map Fin traj)
                 \<and> length traj = length ts \<and> sorted_wrt (<) traj
                 \<and> (\<forall>v\<in>set traj. 0 < v \<and> v < K)"
    if g: "sorted_wrt (<) ts \<and> (\<forall>t\<in>set ts. t0 \<le> t)
            \<and> odeint control_tumor (Fin y0) (map Fin ts) [Fin r, Fin K]
                = Inr (map (\<lambda>t. Fin (N t)) ts)"
  proof (intro exI [of _ "map N ts"] conjI)
    show "odeint control_tumor (Fin y0) (map Fin ts) [Fin r, Fin K] = Inr (map Fin (map N ts))"
      using g by (simp add: comp_def)
    show "length (map N ts) = length ts" by simp
    have "sorted_wrt (\<lambda>s t. N s < N t) ts"
      using g mono by (auto intro: sorted_wrt_mono_rel [of ts "(<)"])
    then show "sorted_wrt (<) (map N ts)"
      by (simp add: sorted_wrt_map)
    show "\<forall>v\<in>set (map N ts). 0 < v \<and> v < K"
      using g bounds by auto
  qed
  show ?thesis
    using mono bounds lim grid by blast
qed

theorem logistic_trajectory_increasing_witness:
  "logistic_curve (1/4) 60 1 0 0 = 1
   \<and> logistic_curve (1/4) 60 1 0 1 < logistic_curve (1/4) 60 1 0 2
   \<and> 0 < logistic_curve (1/4) 60 1 0 2 \<and> logistic_curve (1/4) 60 1 0 2 < 60
   \<and> (logistic_curve (1/4) 60 1 0 \<longlongrightarrow> 60) at_top
   \<and> (\<exists>traj. (\<lambda>func y0 ts args. Inr (map (\<lambda>v. case v of Fin t \<Rightarrow> Fin (logistic_curve (1/4) 60 1 0 t) | _ \<Rightarrow> NaN) ts))
                 control_tumor (Fin 1) (map Fin [0, 1, 2]) [Fin (1/4), Fin 60] = Inr (map Fin traj)
            \<and> length traj = length [0, 1, 2 :: real] \<and> sorted_wrt (<) traj
            \<and> list_all (\<lambda>v. 0 < v \<and> v < 60) traj)"
proof -
  let ?N = "logistic_curve (1/4) 60 1 0"
  let ?S = "\<lambda>func y0 ts args. Inr (map (\<lambda>v. case v of Fin t \<Rightarrow> Fin (?N t) | _ \<Rightarrow> NaN) ts) :: error + pyfloat list"
  have init: "?N 0 = 1"
    by (rule logistic_curve_initial) simp_all
  have ode: "\<exists>d. control_tumor [Fin (?N t)] (Fin t) [Fin (1/4), Fin 60] = Inr (Fin d)
               \<and> (?N has_real_derivative d) (at t)" for t
  proof -
    have "(?N has_real_derivative (1/4) * ?N t * (1 - ?N t / 60)) (at t)"
      by (rule logistic_curve_deriv) simp_all
    moreover have "control_tumor [Fin (?N t)] (Fin t) [Fin (1/4), Fin 60]
        = Inr (Fin ((1/4) * ?N t * (1 - ?N t / 60)))"
      by (rule control_tumor_Fin) simp
    ultimately show ?thesis by blast
  qed
  have run: "sorted_wrt (<) [0, 1, 2 :: real] \<and> (\<forall>t\<in>set [0, 1, 2 :: real]. 0 \<le> t)
       \<and> ?S control_tumor (Fin 1) (map Fin [0, 1, 2]) [Fin (1/4), Fin 60]
           = Inr (map (\<lambda>t. Fin (?N t)) [0, 1, 2])"
    by simp
  have th: "(\<forall>s t. 0 \<le> s \<and> s < t \<longrightarrow> ?N s < ?N t)
       \<and> (\<forall>t\<ge>0. 0 < ?N t \<and> ?N t < 60)
       \<and> (?N \<longlongrightarrow> 60) at_top
       \<and> (sorted_wrt (<) [0, 1, 2 :: real] \<and> (\<forall>t\<in>set [0, 1, 2 :: real]. 0 \<le> t)
            \<and> ?S control_tumor (Fin 1) (map Fin [0, 1, 2]) [Fin (1/4), Fin 60]
                = Inr (map (\<lambda>t. Fin (?N t)) [0, 1, 2])
          \<longrightarrow> (\<exists>traj. ?S control_tumor (Fin 1) (map Fin [0, 1, 2]) [Fin (1/4), Fin 60] = Inr (map Fin traj)
                 \<and> length traj = length [0, 1, 2 :: real] \<and> sorted_wrt (<) traj
                 \<and> (\<forall>v\<in>set traj. 0 < v \<and> v < 60)))"
    by (rule logistic_trajectory_increasing [of "1/4" 60 1 ?N 0 "[0, 1, 2]" ?S, OF _ _ _ _ init ode])
      simp_all
  from th have a: "?N 1 < ?N 2" by simp
  from th have b: "0 < ?N 2 \<and> ?N 2 < 60" by simp
  from th have c: "(?N \<longlongrightarrow> 60) at_top" by blast
  from th run have d: "\<exists>traj. ?S control_tumor (Fin 1) (map Fin [0, 1, 2]) [Fin (1/4), Fin 60] = Inr (map Fin traj)
                 \<and> length traj = length [0, 1, 2 :: real] \<and> sorted_wrt (<) traj
                 \<and> (\<forall>v\<in>set traj. 0 < v \<and> v < 60)"
    by blast
  show ?thesis
    using init a b c d by (simp only: list_all_iff) blast
qed

text \<open>
  Claim C8. For every state \<open>(N, C)\<close>, every time \<open>t\<close> and every \<open>theta\<close> whose first four
  slots are \<open>(r, K, f, g)\<close>, \<open>treated_tumor\<close> returns
  \<open>[r*N*(1 - N/K) - f*N*C, -g*N*C]\<close>, in the arithmetic of doubles and, for finite values
  with \<open>K\<close> non-zero, as real numbers. Slots of \<open>theta\<close> after the fourth are not read, and
  no other term enters the result.
\<close>

theorem treated_tumor_value:
  "treated_tumor [N, C] t ([r, K, f, g] @ rest)
     = Inr [pf_sub (pf_mul (pf_mul r N) (pf_sub (Fin 1) (pf_div N K))) (pf_mul (pf_mul f N) C),
            pf_mul (pf_mul (pf_neg g) N) C]
   \<and> (K' \<noteq> 0 \<longrightarrow>
        treated_tumor [Fin N', Fin C'] t ([Fin r', Fin K', Fin f', Fin g'] @ rest)
          = Inr [Fin (r' * N' * (1 - N' / K') - f' * N' * C'), Fin (- g' * N' * C')])"
  by (simp add: treated_tumor_def getitem_def ebind_def pf_sub_def nth_append)

theorem treated_tumor_value_witness:
  "treated_tumor [Fin 1, Fin 5] (Fin 0) [Fin 0.25, Fin 60, Fin 0.1, Fin 0.2]
     = Inr [Fin (0.25 * 1 * (1 - 1 / 60) - 0.1 * 1 * 5), Fin (- 0.2 * 1 * 5)]"
  using treated_tumor_value [where N = "Fin 1" and C = "Fin 5" and t = "Fin 0" and r = "Fin 0.25"
          and K = "Fin 60" and f = "Fin 0.1" and g = "Fin 0.2" and rest = "[]"
          and K' = 60 and N' = 1 and C' = 5 and r' = "0.25" and f' = "0.1" and g' = "0.2"]
  by (simp add: pf_sub_def)

text \<open>
  Claim C9. The box of the prior is open: when a component of \<open>(r, K, sigma, ic)\<close> equals
  one of its declared bounds (\<open>r\<close> is 0.0 or 1.0, \<open>K\<close> is 10.0 or 120.0, \<open>sigma\<close> is 0.1 or
  30.0, \<open>ic\<close> is 0.1 or 20.0), \<open>log_prior\<close> returns minus infinity, and so does
  \<open>log_probability\<close>, whatever the data and the integrator.
\<close>

theorem log_prior_boundary:
  assumes "r = Fin 0 \<or> r = Fin 1 \<or> K = Fin 10 \<or> K = Fin 120
         \<or> sigma = Fin 0.1 \<or> sigma = Fin 30 \<or> ic = Fin 0.1 \<or> ic = Fin 20"
  shows "log_prior [r, K, sigma, ic] = Inr NInf
       \<and> log_probability odeint [r, K, sigma, ic] ts y = Inr NInf"
proof -
  have "log_prior [r, K, sigma, ic] \<noteq> Inr (Fin 0)"
    using assms unfolding log_prior_inside by auto
  with log_prior_cases [of r K sigma ic] have lp: "log_prior [r, K, sigma, ic] = Inr NInf"
    by blast
  then show ?thesis
    by (simp add: log_probability_def ebind_def)
qed

theorem log_prior_boundary_witness:
  "log_prior [Fin 0.5, Fin 50, Fin 0.1, Fin 1] = Inr NInf
   \<and> log_probability trivial_odeint
        [Fin 0.5, Fin 50, Fin 0.1, Fin 1] [Fin 0, Fin 1] [Fin 1, Fin 2] = Inr NInf"
  using log_prior_boundary [of "Fin 0.5" "Fin 50" "Fin 0.1" "Fin 1"
      trivial_odeint "[Fin 0, Fin 1]" "[Fin 1, Fin 2]"]
  by simp

text \<open>
  Claim C10. When \<open>log_prior theta\<close> is finite, the third component \<open>sigma\<close> of \<open>theta\<close> is
  a finite number strictly between 0.1 and 30, and the variance \<open>cal_sigma*cal_sigma\<close>
  that \<open>log_likelihood_ic\<close> computes is strictly positive: on finite data and a finite
  trajectory of the same length the likelihood that \<open>log_probability\<close> evaluates is the
  finite number \<open>-1/2 * (\<Sum>i<Nt. log (2 pi) + log v + (D\<^sub>i - Y\<^sub>i)\<^sup>2 / v)\<close> with
  \<open>v = sigma * sigma > 0\<close>, the logarithm and the quotient being those of the reals;
  neither the division by zero nor the logarithm of a non-positive number is reached.
\<close>

theorem variance_positive_under_prior:
  assumes "log_prior theta = Inr lp" and "isfinite lp"
      and "length D = length Y"
      and "odeint control_tumor (theta ! 3) ts [theta ! 0, theta ! 1] = Inr (map Fin Y)"
  shows "\<exists>s. theta ! 2 = Fin s \<and> 0.1 < s \<and> s < 30 \<and> 0 < s * s
           \<and> log_likelihood_ic odeint theta ts (map Fin D)
               = Inr (Fin (- 1/2 * (\<Sum>i<length D. ln (2 * pi) + ln (s * s) + (D ! i - Y ! i)\<^sup>2 / (s * s))))
           \<and> log_probability odeint theta ts (map Fin D)
               = Inr (Fin (- 1/2 * (\<Sum>i<length D. ln (2 * pi) + ln (s * s) + (D ! i - Y ! i)\<^sup>2 / (s * s))))"
proof -
  obtain r K sigma ic where th: "theta = [r, K, sigma, ic]"
    using log_prior_Inr_length [OF assms(1)] by blast
  have "lp \<noteq> NInf" using assms(2) by auto
  with assms(1) log_prior_cases [of r K sigma ic] have ins: "log_prior [r, K, sigma, ic] = Inr (Fin 0)"
    unfolding th by auto
  then obtain s where s: "sigma = Fin s" "0.1 < s" "s < 30"
    unfolding log_prior_inside by blast
  have pos: "0 < s * s" and nz: "s \<noteq> 0"
    using s(2) by simp_all
  have run: "odeint control_tumor ic ts [r, K] = Inr (map Fin Y)"
    using assms(4) by (simp add: th)
  have ll: "log_likelihood_ic odeint [r, K, Fin s, ic] ts (map Fin D)
      = Inr (Fin (- 1/2 * (\<Sum>i<length D. ln (2 * pi) + ln (s * s) + (D ! i - Y ! i)\<^sup>2 / (s * s))))"
    using log_likelihood_ic_Fin [of s D Y odeint ic ts r K, OF nz assms(3) run]
    unfolding power2_eq_square [of s] .
  have "log_probability odeint [r, K, Fin s, ic] ts (map Fin D)
      = log_likelihood_ic odeint [r, K, Fin s, ic] ts (map Fin D)"
    unfolding log_probability_def ins [unfolded s(1)] ll
    by (simp add: ebind_def)
  with ll show ?thesis
    using s pos by (simp add: th)
qed

theorem variance_positive_under_prior_witness:
  "\<exists>s. [Fin (1/4), Fin 15, Fin 3.6, Fin 15] ! 2 = Fin s \<and> 0.1 < s \<and> s < 30 \<and> 0 < s * s
       \<and> log_likelihood_ic trivial_odeint [Fin (1/4), Fin 15, Fin 3.6, Fin 15] [Fin 0, Fin 1]
            (map Fin [14, 17])
           = Inr (Fin (- 1/2 * (\<Sum>i<length [14, 17 :: real].
                 ln (2 * pi) + ln (s * s) + ([14, 17] ! i - [15, 15] ! i)\<^sup>2 / (s * s))))
       \<and> log_probability trivial_odeint [Fin (1/4), Fin 15, Fin 3.6, Fin 15] [Fin 0, Fin 1]
            (map Fin [14, 17])
           = Inr (Fin (- 1/2 * (\<Sum>i<length [14, 17 :: real].
                 ln (2 * pi) + ln (s * s) + ([14, 17] ! i - [15, 15] ! i)\<^sup>2 / (s * s))))"
proof -
  have prior: "log_prior [Fin (1/4), Fin 15, Fin 3.6, Fin 15] = Inr (Fin 0)"
    by simp
  have traj: "trivial_odeint control_tumor ([Fin (1/4), Fin 15, Fin 3.6, Fin 15] ! 3) [Fin 0, Fin 1]
        [[Fin (1/4), Fin 15, Fin 3.6, Fin 15] ! 0, [Fin (1/4), Fin 15, Fin 3.6, Fin 15] ! 1]
      = Inr (map Fin [15, 15])"
    by (simp add: trivial_odeint_def control_tumor_rest)
  have fin: "isfinite (Fin 0)" and len: "length [14, 17 :: real] = length [15, 15 :: real]"
    by simp_all
  show ?thesis
    using variance_positive_under_prior [where theta = "[Fin (1/4), Fin 15, Fin 3.6, Fin 15]"
            and lp = "Fin 0" and D = "[14, 17]" and Y = "[15, 15]" and odeint = trivial_odeint
            and ts = "[Fin 0, Fin 1]", OF prior fin len traj]
    by simp
qed

end
